theory Spec2Isabelle
  imports Complex_Main
begin

section \<open>The browser client of the Connect-Four game (static/script.js)\<close>

text \<open>
  The script keeps four global variables (the game session), sends two kinds of
  GET requests, and paints the board on a canvas. The model threads one record,
  \<open>page\<close>, through every function: the globals of the script, the parts of the
  document the script writes (the prompt text, the canvas) and the list of the
  requests it has sent. Each JavaScript function becomes a function from
  \<open>page\<close> to \<open>page\<close>; the two \<open>onreadystatechange\<close> closures become functions
  of the request object they close over.

  The fields of a server response have the types the endpoints document: the
  identifier and the prompt are strings, the dimensions are integers, the
  game-over flag is a boolean, and the board is an array. The elements of the
  board array are arbitrary JSON values. Numbers are integers (the pixel
  coordinates, the dimensions and the indices the script computes with).
  Strings are lists of 8-bit characters.
\<close>

subsection \<open>JavaScript values and built-ins used by the script\<close>

datatype jsval =
    JUndefined
  | JNull
  | JBool bool
  | JNum int
  | JStr string
  | JArr "jsval list"
  | JObj "(string \<times> jsval) list"

text \<open>\<open>a[i]\<close> on an array: an index outside the array yields \<open>undefined\<close>.\<close>

definition js_index :: "jsval list \<Rightarrow> int \<Rightarrow> jsval" where
  "js_index a i = (if 0 \<le> i \<and> i < int (length a) then a ! nat i else JUndefined)"

text \<open>The decimal string of an integer, as string concatenation with a number
  produces it (magnitudes below \<open>10^21\<close>, where JavaScript prints all digits).\<close>

definition digit_char :: "nat \<Rightarrow> char" where
  "digit_char d = ''0123456789ABCDEF'' ! d"

fun nat_digits :: "nat \<Rightarrow> string" where
  "nat_digits n =
     (if n < 10 then [digit_char n] else nat_digits (n div 10) @ [digit_char (n mod 10)])"

definition number_to_string :: "int \<Rightarrow> string" where
  "number_to_string k =
     (if k < 0 then CHR ''-'' # nat_digits (nat (- k)) else nat_digits (nat k))"

text \<open>The global \<open>escape\<close>: letters, digits and \<open>@*_+-./\<close> are kept, every other
  character (of code below 256) becomes \<open>%XX\<close> with two upper-case hex digits.\<close>

definition escape_kept :: "char \<Rightarrow> bool" where
  "escape_kept c \<longleftrightarrow>
     c \<in> set (''ABCDEFGHIJKLMNOPQRSTUVWXYZabcdefghijklmnopqrstuvwxyz'' @ ''0123456789@*_+-./'')"

definition escape_char :: "char \<Rightarrow> string" where
  "escape_char c =
     (if escape_kept c then [c]
      else [CHR ''%'', digit_char (of_char c div 16), digit_char (of_char c mod 16)])"

definition escape :: "string \<Rightarrow> string" where
  "escape s = concat (map escape_char s)"

subsection \<open>State\<close>

text \<open>One filled circle on the canvas: the centre and the radius given to
  \<open>context.arc\<close> (the angles are always \<open>0\<close> and \<open>2 * Math.PI\<close>, a full circle)
  and the \<open>fillStyle\<close> in force at \<open>context.fill()\<close>.\<close>

record marker =
  arc_x :: int
  arc_y :: int
  arc_radius :: int
  fillStyle :: string

text \<open>
  \<open>game_id\<close>, \<open>num_rows\<close>, \<open>num_columns\<close>, \<open>active_game\<close>: the globals of the script.
  \<open>prompt\<close>: the \<open>innerHTML\<close> of the element \<open>prompt\<close>.
  \<open>canvas_width\<close>, \<open>canvas_height\<close>: the numbers last assigned to the canvas.
  \<open>canvas_fills\<close>: the circles painted since the canvas was last cleared, oldest first.
  \<open>requests\<close>: the URLs of the GET requests sent so far, oldest first.
\<close>

record page =
  game_id :: string
  num_rows :: int
  num_columns :: int
  active_game :: bool
  prompt :: string
  canvas_width :: int
  canvas_height :: int
  canvas_fills :: "marker list"
  requests :: "string list"

text \<open>The parsed body of a response. \<open>/newgame\<close> answers with \<open>GameId\<close>,
  \<open>NumRows\<close>, \<open>NumColumns\<close>, \<open>Board\<close>, \<open>Prompt\<close>; \<open>/makemove\<close> with \<open>GameOver\<close>,
  \<open>Board\<close>, \<open>Prompt\<close>. Each handler reads only the fields of its endpoint.\<close>

record response =
  GameId :: string
  NumRows :: int
  NumColumns :: int
  GameOver :: bool
  Board :: "jsval list"
  Prompt :: string

text \<open>The request object as an \<open>onreadystatechange\<close> handler sees it;
  \<open>parsed\<close> is \<open>JSON.parse(req.responseText)\<close>.\<close>

record xhr =
  readyState :: int
  status :: int
  parsed :: response

text \<open>A click on the canvas: \<open>event.pageX\<close>, and \<open>canvas.offsetLeft\<close> at that time.\<close>

record click =
  pageX :: int
  offsetLeft :: int

definition slot_pixels :: int where
  "slot_pixels = 60"

text \<open>The globals as the script initialises them, on a page with an empty prompt
  and a canvas of the default size.\<close>

definition initial_page :: page where
  "initial_page =
     \<lparr>game_id = ''0'', num_rows = 0, num_columns = 0, active_game = False,
      prompt = [], canvas_width = 300, canvas_height = 150, canvas_fills = [],
      requests = []\<rparr>"

subsection \<open>renderBoard\<close>

text \<open>The \<open>switch\<close> on a board element; \<open>case\<close> compares with strict equality.\<close>

definition fill_color :: "jsval \<Rightarrow> string" where
  "fill_color v =
     (if v = JStr ''X'' then ''#f06666''
      else if v = JStr ''O'' then ''#6686f0''
      else ''#DCDCDC'')"

text \<open>The body of the inner loop: one circle, coloured from
  \<open>resp['Board'][(num_columns * row_index) + col_index]\<close>.\<close>

definition draw_slot :: "response \<Rightarrow> int \<Rightarrow> int \<Rightarrow> page \<Rightarrow> page" where
  "draw_slot resp row_index col_index pg =
     pg\<lparr>canvas_fills := canvas_fills pg @
        [\<lparr>arc_x = (slot_pixels div 2) + (col_index * slot_pixels),
          arc_y = (slot_pixels div 2) + (row_index * slot_pixels),
          arc_radius = (slot_pixels div 2) - 2,
          fillStyle = fill_color
            (js_index (Board resp) ((num_columns pg * row_index) + col_index))\<rparr>]\<rparr>"

function col_loop :: "response \<Rightarrow> int \<Rightarrow> int \<Rightarrow> page \<Rightarrow> page" where
  "col_loop resp row_index col_index pg =
     (if col_index < num_columns pg
      then col_loop resp row_index (col_index + 1) (draw_slot resp row_index col_index pg)
      else pg)"
  by pat_completeness auto
termination
  by (relation "measure (\<lambda>(resp, row_index, col_index, pg). nat (num_columns pg - col_index))")
     (simp_all add: draw_slot_def)

declare col_loop.simps [simp del]

function row_loop :: "response \<Rightarrow> int \<Rightarrow> page \<Rightarrow> page" where
  "row_loop resp row_index pg =
     (if row_index < num_rows pg
      then row_loop resp (row_index + 1) (col_loop resp row_index 0 pg)
      else pg)"
  by pat_completeness auto
termination
proof (relation "measure (\<lambda>(resp, row_index, pg). nat (num_rows pg - row_index))")
  show "wf (measure (\<lambda>(resp, row_index, pg). nat (num_rows pg - row_index)))"
    by simp
next
  fix resp :: response and row_index :: int and pg :: page
  assume less: "row_index < num_rows pg"
  have keep: "num_rows (col_loop resp row_index j q) = num_rows q" for j q
  proof (induction resp row_index j q rule: col_loop.induct)
    case (1 resp row_index col_index q)
    show ?case
    proof (cases "col_index < num_columns q")
      case True
      with 1 show ?thesis
        by (subst col_loop.simps) (simp add: draw_slot_def)
    next
      case False
      then show ?thesis
        by (subst col_loop.simps) simp
    qed
  qed
  from less show "((resp, row_index + 1, col_loop resp row_index 0 pg), (resp, row_index, pg))
      \<in> measure (\<lambda>(resp, row_index, pg). nat (num_rows pg - row_index))"
    by (simp add: keep)
qed

declare row_loop.simps [simp del]

text \<open>Assigning \<open>canvas.width\<close> or \<open>canvas.height\<close> clears the canvas.\<close>

definition renderBoard :: "response \<Rightarrow> page \<Rightarrow> page" where
  "renderBoard resp pg =
     row_loop resp 0
       (pg\<lparr>prompt := Prompt resp,
           canvas_width := num_columns pg * slot_pixels,
           canvas_height := num_rows pg * slot_pixels,
           canvas_fills := []\<rparr>)"

subsection \<open>newGame and makeMove\<close>

definition newGame_onreadystatechange :: "xhr \<Rightarrow> page \<Rightarrow> page" where
  "newGame_onreadystatechange req pg =
     (if readyState req = 4 \<and> status req = 200
      then let resp = parsed req
           in renderBoard resp
                (pg\<lparr>game_id := GameId resp,
                    num_rows := NumRows resp,
                    num_columns := NumColumns resp,
                    active_game := True\<rparr>)
      else pg)"

definition newGame :: "page \<Rightarrow> page" where
  "newGame pg =
     (let formatted_params =
            (if game_id pg \<noteq> ''0'' \<and> active_game pg
             then ''?game_id'' @ escape (game_id pg) else [])
      in pg\<lparr>requests := requests pg @ [''/newgame'' @ formatted_params]\<rparr>)"

definition makeMove_onreadystatechange :: "xhr \<Rightarrow> page \<Rightarrow> page" where
  "makeMove_onreadystatechange req pg =
     (if readyState req = 4 \<and> status req = 200
      then let resp = parsed req
           in renderBoard resp (pg\<lparr>active_game := \<not> GameOver resp\<rparr>)
      else pg)"

definition makeMove :: "int \<Rightarrow> page \<Rightarrow> page" where
  "makeMove col_index pg =
     (let formatted_params =
            ''?game_id='' @ escape (game_id pg) @ ''&column_index='' @ number_to_string col_index
      in pg\<lparr>requests := requests pg @ [''/makemove'' @ formatted_params],
             prompt := ''Player move in column '' @ number_to_string (col_index + 1)
                       @ ''. Computer thinking...''\<rparr>)"

subsection \<open>The click listener of the canvas\<close>

text \<open>\<open>Math.floor\<close> of the quotient of two integers is the floor division.\<close>

definition board_click :: "click \<Rightarrow> page \<Rightarrow> page" where
  "board_click event pg =
     (if \<not> active_game pg then pg
      else let col_index = (pageX event - offsetLeft event) div slot_pixels
           in makeMove col_index pg)"

subsection \<open>Derived notions used in the statements\<close>

text \<open>The circle that the loop body paints for the slot \<open>(row, col)\<close> when the
  session has \<open>c\<close> columns.\<close>

definition marker_at :: "response \<Rightarrow> int \<Rightarrow> int \<Rightarrow> int \<Rightarrow> marker" where
  "marker_at resp c row col =
     \<lparr>arc_x = 30 + 60 * col, arc_y = 30 + 60 * row, arc_radius = 28,
      fillStyle = fill_color (js_index (Board resp) (c * row + col))\<rparr>"

text \<open>What a user sees after a render: the size of the canvas, the circles on it
  and the prompt.\<close>

definition visual_output :: "page \<Rightarrow> int \<times> int \<times> marker list \<times> string" where
  "visual_output pg = (canvas_width pg, canvas_height pg, canvas_fills pg, prompt pg)"

text \<open>A session of two rows and three columns with game \<open>42\<close> running, and a
  response whose board has four elements only.\<close>

definition sample_page :: page where
  "sample_page =
     \<lparr>game_id = ''42'', num_rows = 2, num_columns = 3, active_game = True,
      prompt = ''Your move'', canvas_width = 180, canvas_height = 120, canvas_fills = [],
      requests = [''/newgame'']\<rparr>"

definition sample_response :: response where
  "sample_response =
     \<lparr>GameId = ''43'', NumRows = 1, NumColumns = 2, GameOver = True,
      Board = [JStr ''X'', JStr ''O'', JNull, JStr ''x''], Prompt = ''Game over''\<rparr>"

section \<open>The loops of renderBoard in closed form\<close>

lemma draw_slot_marker_at:
  "draw_slot resp i j pg = pg\<lparr>canvas_fills := canvas_fills pg @ [marker_at resp (num_columns pg) i j]\<rparr>"
  by (simp add: draw_slot_def marker_at_def slot_pixels_def)

lemma col_loop_closed:
  "col_loop resp i j pg =
     pg\<lparr>canvas_fills := canvas_fills pg @ map (marker_at resp (num_columns pg) i) [j..num_columns pg - 1]\<rparr>"
proof (induction resp i j pg rule: col_loop.induct)
  case (1 resp i j pg)
  show ?case
  proof (cases "j < num_columns pg")
    case True
    then have "[j..num_columns pg - 1] = j # [j + 1..num_columns pg - 1]"
      by (simp add: upto_rec1)
    with True 1 show ?thesis
      by (subst col_loop.simps) (simp add: draw_slot_marker_at)
  next
    case False
    then show ?thesis
      by (subst col_loop.simps) simp
  qed
qed

lemma row_loop_closed:
  "row_loop resp i pg =
     pg\<lparr>canvas_fills := canvas_fills pg @
        concat (map (\<lambda>row. map (marker_at resp (num_columns pg) row) [0..num_columns pg - 1])
                    [i..num_rows pg - 1])\<rparr>"
proof (induction resp i pg rule: row_loop.induct)
  case (1 resp i pg)
  show ?case
  proof (cases "i < num_rows pg")
    case True
    then have "[i..num_rows pg - 1] = i # [i + 1..num_rows pg - 1]"
      by (simp add: upto_rec1)
    with True 1 show ?thesis
      by (subst row_loop.simps) (simp add: col_loop_closed)
  next
    case False
    then show ?thesis
      by (subst row_loop.simps) simp
  qed
qed

lemma renderBoard_closed:
  "renderBoard resp pg =
     pg\<lparr>prompt := Prompt resp,
        canvas_width := num_columns pg * 60,
        canvas_height := num_rows pg * 60,
        canvas_fills :=
          concat (map (\<lambda>row. map (marker_at resp (num_columns pg) row) [0..num_columns pg - 1])
                      [0..num_rows pg - 1])\<rparr>"
  by (simp add: renderBoard_def row_loop_closed slot_pixels_def)

lemma upto_from_0: "[0..n - 1] = map int [0..<nat n]"
  by (rule nth_equalityI) simp_all

lemma concat_rows_nat:
  "concat (map (\<lambda>i. map (g i) [0..<c]) [0..<r]) = map (\<lambda>k. g (k div c) (k mod c)) [0..<r * c]"
proof (induction r)
  case 0
  show ?case by simp
next
  case (Suc r)
  have "[0..<r * c + c] = [0..<r * c] @ [r * c..<r * c + c]"
    by (rule upt_add_eq_append) simp
  moreover have "[r * c..<r * c + c] = map (\<lambda>j. j + r * c) [0..<c]"
    by (simp only: map_add_upt add.commute [of c])
  moreover have "Suc r * c = r * c + c"
    by simp
  ultimately have "[0..<Suc r * c] = [0..<r * c] @ map (\<lambda>j. j + r * c) [0..<c]"
    by (simp only:)
  moreover have "map (\<lambda>k. g (k div c) (k mod c)) (map (\<lambda>j. j + r * c) [0..<c]) = map (g r) [0..<c]"
    by simp
  ultimately show ?case
    using Suc.IH by simp
qed

lemma fills_row_major:
  assumes "0 \<le> r" and "0 \<le> c"
  shows "concat (map (\<lambda>row. map (f row) [0..c - 1]) [0..r - 1]) =
         map (\<lambda>k. f (int k div c) (int k mod c)) [0..<nat (r * c)]"
proof -
  have "concat (map (\<lambda>row. map (f row) [0..c - 1]) [0..r - 1]) =
        concat (map (\<lambda>i. map (\<lambda>j. f (int i) (int j)) [0..<nat c]) [0..<nat r])"
    by (simp add: upto_from_0 comp_def)
  also have "\<dots> = map (\<lambda>k. f (int (k div nat c)) (int (k mod nat c))) [0..<nat r * nat c]"
    by (rule concat_rows_nat)
  also have "\<dots> = map (\<lambda>k. f (int k div c) (int k mod c)) [0..<nat (r * c)]"
    using assms by (simp add: zdiv_int zmod_int nat_mult_distrib)
  finally show ?thesis .
qed

lemma renderBoard_fills:
  assumes "0 \<le> num_rows pg" and "0 \<le> num_columns pg"
  shows "canvas_fills (renderBoard resp pg) =
         map (\<lambda>k. marker_at resp (num_columns pg) (int k div num_columns pg) (int k mod num_columns pg))
             [0..<nat (num_rows pg * num_columns pg)]"
  using assms by (simp add: renderBoard_closed fills_row_major)

subsection \<open>Fields that renderBoard leaves alone, and the circle at a position\<close>

lemma session_renderBoard:
  "game_id (renderBoard resp pg) = game_id pg"
  "num_rows (renderBoard resp pg) = num_rows pg"
  "num_columns (renderBoard resp pg) = num_columns pg"
  "active_game (renderBoard resp pg) = active_game pg"
  "requests (renderBoard resp pg) = requests pg"
  by (simp_all add: renderBoard_closed)

lemma renderBoard_nth:
  assumes "0 \<le> num_rows pg" and "0 \<le> num_columns pg"
    and "k < nat (num_rows pg * num_columns pg)"
  shows "canvas_fills (renderBoard resp pg) ! k =
         marker_at resp (num_columns pg) (int k div num_columns pg) (int k mod num_columns pg)"
  using assms by (simp add: renderBoard_fills)

lemma renderBoard_length:
  assumes "0 \<le> num_rows pg" and "0 \<le> num_columns pg"
  shows "length (canvas_fills (renderBoard resp pg)) = nat (num_rows pg * num_columns pg)"
  using assms by (simp add: renderBoard_fills)

lemma slot_index_bound:
  fixes r c row col :: int
  assumes "0 \<le> row" "row < r" "0 \<le> col" "col < c"
  shows "row * c + col < r * c" and "0 \<le> row * c + col"
proof -
  have "row + 1 \<le> r" using assms by simp
  then have "(row + 1) * c \<le> r * c"
    using assms by (intro mult_right_mono) simp_all
  then show "row * c + col < r * c"
    using assms by (simp add: algebra_simps)
  show "0 \<le> row * c + col"
    using assms by simp
qed

section \<open>The claims\<close>

text \<open>
  Claim C1. When \<open>newGame\<close> runs while a game is active (\<open>game_id\<close> is not
  \<open>"0"\<close> and \<open>active_game\<close> is true), the request should carry the old identifier as
  the query parameter \<open>game_id\<close>: \<open>/newgame?game_id=<id>\<close>. The function appends the
  identifier to \<open>'?game_id'\<close> with no \<open>=\<close> between them. With game \<open>42\<close> active the
  URL sent is \<open>/newgame?game_id42\<close>, which is not \<open>/newgame?game_id=42\<close>; \<open>makeMove\<close>
  in the same state sends \<open>game_id=42\<close>.
\<close>

theorem newGame_active_request_url:
  "requests (newGame sample_page) = [''/newgame'', ''/newgame?game_id42'']
   \<and> last (requests (newGame sample_page)) \<noteq> ''/newgame?game_id=42''
   \<and> last (requests (makeMove 0 sample_page)) = ''/makemove?game_id=42&column_index=0''"
  by (simp add: newGame_def makeMove_def sample_page_def escape_def escape_char_def
      escape_kept_def number_to_string_def digit_char_def)

text \<open>
  Claim C2, as stated: the output of \<open>renderBoard\<close> depends on the response alone.
  It does not: the function reads the globals \<open>num_rows\<close> and \<open>num_columns\<close>. The
  same response rendered in a session of one column and in a session of two
  columns gives different canvases.
\<close>

theorem renderBoard_same_response_counterexample:
  "visual_output (renderBoard sample_response (sample_page\<lparr>num_rows := 1, num_columns := 1\<rparr>))
   \<noteq> visual_output (renderBoard sample_response (sample_page\<lparr>num_rows := 1, num_columns := 2\<rparr>))"
  by (simp add: visual_output_def renderBoard_closed sample_page_def)

text \<open>
  Claim C2, amended. The visual output of \<open>renderBoard\<close> (canvas size, painted
  circles, prompt) is determined by the response together with the session's
  \<open>num_rows\<close> and \<open>num_columns\<close>: two pages that agree on these two give the same
  output for the same response, whatever else differs. Rendering the same
  response a second time leaves the page as the first rendering left it.
\<close>

theorem renderBoard_deterministic_idempotent:
  "(num_rows a = num_rows b \<and> num_columns a = num_columns b \<longrightarrow>
      visual_output (renderBoard resp a) = visual_output (renderBoard resp b))
   \<and> renderBoard resp (renderBoard resp a) = renderBoard resp a"
  by (simp add: visual_output_def renderBoard_closed)

theorem renderBoard_deterministic_idempotent_witness:
  "visual_output (renderBoard sample_response sample_page) =
     visual_output (renderBoard sample_response
        (sample_page\<lparr>game_id := ''7'', active_game := False, prompt := [], canvas_width := 0,
            canvas_fills := [\<lparr>arc_x = 30, arc_y = 30, arc_radius = 28, fillStyle = ''#f06666''\<rparr>],
            requests := []\<rparr>))
   \<and> renderBoard sample_response (renderBoard sample_response sample_page) =
       renderBoard sample_response sample_page"
  using renderBoard_deterministic_idempotent
    [of sample_page "sample_page\<lparr>game_id := ''7'', active_game := False, prompt := [], canvas_width := 0,
            canvas_fills := [\<lparr>arc_x = 30, arc_y = 30, arc_radius = 28, fillStyle = ''#f06666''\<rparr>],
            requests := []\<rparr>" sample_response]
  by simp

text \<open>
  Claim C3. For session dimensions \<open>num_rows \<ge> 0\<close> and \<open>num_columns \<ge> 0\<close>,
  \<open>renderBoard\<close> paints exactly \<open>num_rows * num_columns\<close> circles in row-major order:
  the circle of slot \<open>(row, col)\<close> is the one painted at position
  \<open>row * num_columns + col\<close>, it is centred in that slot, and its colour comes from
  the board element at index \<open>row * num_columns + col\<close>.
\<close>

theorem renderBoard_markers_row_major:
  assumes "0 \<le> num_rows pg" and "0 \<le> num_columns pg"
  shows "length (canvas_fills (renderBoard resp pg)) = nat (num_rows pg * num_columns pg)
       \<and> (\<forall>row col. 0 \<le> row \<and> row < num_rows pg \<and> 0 \<le> col \<and> col < num_columns pg \<longrightarrow>
            canvas_fills (renderBoard resp pg) ! nat (row * num_columns pg + col) =
              \<lparr>arc_x = 30 + 60 * col, arc_y = 30 + 60 * row, arc_radius = 28,
               fillStyle = fill_color (js_index (Board resp) (row * num_columns pg + col))\<rparr>)"
proof (intro conjI allI impI)
  show "length (canvas_fills (renderBoard resp pg)) = nat (num_rows pg * num_columns pg)"
    using assms by (rule renderBoard_length)
next
  fix row col :: int
  assume slot: "0 \<le> row \<and> row < num_rows pg \<and> 0 \<le> col \<and> col < num_columns pg"
  let ?c = "num_columns pg"
  let ?k = "nat (row * ?c + col)"
  from slot have less: "row * ?c + col < num_rows pg * ?c" and nonneg: "0 \<le> row * ?c + col"
    by (simp_all add: slot_index_bound)
  then have "?k < nat (num_rows pg * ?c)"
    by simp
  with assms have "canvas_fills (renderBoard resp pg) ! ?k =
      marker_at resp ?c (int ?k div ?c) (int ?k mod ?c)"
    by (rule renderBoard_nth)
  moreover from slot have "(row * ?c + col) div ?c = row" and "(row * ?c + col) mod ?c = col"
    by simp_all
  ultimately show "canvas_fills (renderBoard resp pg) ! ?k =
      \<lparr>arc_x = 30 + 60 * col, arc_y = 30 + 60 * row, arc_radius = 28,
       fillStyle = fill_color (js_index (Board resp) (row * ?c + col))\<rparr>"
    using nonneg by (simp add: marker_at_def mult.commute)
qed

theorem renderBoard_markers_row_major_witness:
  "length (canvas_fills (renderBoard sample_response sample_page)) = 6
   \<and> canvas_fills (renderBoard sample_response sample_page) ! 4 =
        \<lparr>arc_x = 90, arc_y = 90, arc_radius = 28, fillStyle = ''#DCDCDC''\<rparr>
   \<and> canvas_fills (renderBoard sample_response sample_page) ! 1 =
        \<lparr>arc_x = 90, arc_y = 30, arc_radius = 28, fillStyle = ''#6686f0''\<rparr>"
proof -
  have dims: "0 \<le> num_rows sample_page" "0 \<le> num_columns sample_page"
    by (simp_all add: sample_page_def)
  note main = renderBoard_markers_row_major [OF dims, of sample_response]
  from main [THEN conjunct1]
  have "length (canvas_fills (renderBoard sample_response sample_page)) = 6"
    by (simp add: sample_page_def)
  moreover from main [THEN conjunct2, rule_format, of 1 1]
  have "canvas_fills (renderBoard sample_response sample_page) ! nat (1 * 3 + 1) =
        \<lparr>arc_x = 90, arc_y = 90, arc_radius = 28, fillStyle = ''#DCDCDC''\<rparr>"
    by (simp add: sample_page_def sample_response_def js_index_def fill_color_def)
  moreover from main [THEN conjunct2, rule_format, of 0 1]
  have "canvas_fills (renderBoard sample_response sample_page) ! nat (0 * 3 + 1) =
        \<lparr>arc_x = 90, arc_y = 30, arc_radius = 28, fillStyle = ''#6686f0''\<rparr>"
    by (simp add: sample_page_def sample_response_def js_index_def fill_color_def)
  ultimately show ?thesis
    by simp
qed

text \<open>
  Claim C4. The colour of a circle depends on the content of its cell only: the
  string \<open>X\<close> gives \<open>#f06666\<close> (red), the string \<open>O\<close> gives \<open>#6686f0\<close> (blue), every
  other value gives \<open>#DCDCDC\<close> (grey); and the circle painted at position \<open>k\<close> has
  the colour of the board element at index \<open>k\<close>.
\<close>

theorem marker_color_of_cell:
  "fill_color (JStr ''X'') = ''#f06666''
   \<and> fill_color (JStr ''O'') = ''#6686f0''
   \<and> (v \<noteq> JStr ''X'' \<and> v \<noteq> JStr ''O'' \<longrightarrow> fill_color v = ''#DCDCDC'')
   \<and> (0 \<le> num_rows pg \<and> 0 \<le> num_columns pg \<and> k < nat (num_rows pg * num_columns pg) \<longrightarrow>
        fillStyle (canvas_fills (renderBoard resp pg) ! k) =
          fill_color (js_index (Board resp) (int k)))"
proof (intro conjI impI)
  assume range: "0 \<le> num_rows pg \<and> 0 \<le> num_columns pg \<and> k < nat (num_rows pg * num_columns pg)"
  then have "canvas_fills (renderBoard resp pg) ! k =
      marker_at resp (num_columns pg) (int k div num_columns pg) (int k mod num_columns pg)"
    by (simp add: renderBoard_nth)
  then show "fillStyle (canvas_fills (renderBoard resp pg) ! k) =
      fill_color (js_index (Board resp) (int k))"
    by (simp add: marker_at_def)
qed (simp_all add: fill_color_def)

theorem marker_color_of_cell_witness:
  "fill_color JNull = ''#DCDCDC''
   \<and> fill_color (JStr ''x'') = ''#DCDCDC''
   \<and> fillStyle (canvas_fills (renderBoard sample_response sample_page) ! 0) = ''#f06666''
   \<and> fillStyle (canvas_fills (renderBoard sample_response sample_page) ! 3) = ''#DCDCDC''"
  using marker_color_of_cell [of JNull sample_page 0 sample_response]
    marker_color_of_cell [of "JStr ''x''" sample_page 3 sample_response]
  by (simp add: sample_page_def sample_response_def js_index_def)

text \<open>
  Claim C5. After a successful response to a new-game request (\<open>readyState\<close> 4,
  status 200), whatever the page was before, \<open>game_id\<close>, \<open>num_rows\<close> and
  \<open>num_columns\<close> are the \<open>GameId\<close>, \<open>NumRows\<close> and \<open>NumColumns\<close> of the response and
  \<open>active_game\<close> is true.
\<close>

theorem newGame_response_replaces_session:
  assumes "readyState req = 4" and "status req = 200"
  shows "game_id (newGame_onreadystatechange req pg) = GameId (parsed req)
       \<and> num_rows (newGame_onreadystatechange req pg) = NumRows (parsed req)
       \<and> num_columns (newGame_onreadystatechange req pg) = NumColumns (parsed req)
       \<and> active_game (newGame_onreadystatechange req pg) = True"
  using assms by (simp add: newGame_onreadystatechange_def Let_def session_renderBoard)

theorem newGame_response_replaces_session_witness:
  "game_id (newGame_onreadystatechange \<lparr>readyState = 4, status = 200, parsed = sample_response\<rparr> sample_page) = ''43''
   \<and> num_rows (newGame_onreadystatechange \<lparr>readyState = 4, status = 200, parsed = sample_response\<rparr> sample_page) = 1
   \<and> num_columns (newGame_onreadystatechange \<lparr>readyState = 4, status = 200, parsed = sample_response\<rparr> sample_page) = 2
   \<and> active_game (newGame_onreadystatechange \<lparr>readyState = 4, status = 200, parsed = sample_response\<rparr> sample_page)"
  using newGame_response_replaces_session
    [of "\<lparr>readyState = 4, status = 200, parsed = sample_response\<rparr>" sample_page]
  by (simp add: sample_response_def)

text \<open>
  Claim C6. After a successful response to a move request, \<open>active_game\<close> is the
  negation of the \<open>GameOver\<close> flag of the response: false when the game is over,
  true otherwise.
\<close>

theorem makeMove_response_sets_active:
  assumes "readyState req = 4" and "status req = 200"
  shows "active_game (makeMove_onreadystatechange req pg) = (\<not> GameOver (parsed req))"
  using assms by (simp add: makeMove_onreadystatechange_def Let_def session_renderBoard)

theorem makeMove_response_sets_active_witness:
  "active_game sample_page
   \<and> \<not> active_game (makeMove_onreadystatechange
          \<lparr>readyState = 4, status = 200, parsed = sample_response\<rparr> sample_page)
   \<and> active_game (makeMove_onreadystatechange
          \<lparr>readyState = 4, status = 200, parsed = sample_response\<lparr>GameOver := False\<rparr>\<rparr> sample_page)"
  using makeMove_response_sets_active
    [of "\<lparr>readyState = 4, status = 200, parsed = sample_response\<rparr>" sample_page]
    makeMove_response_sets_active
    [of "\<lparr>readyState = 4, status = 200, parsed = sample_response\<lparr>GameOver := False\<rparr>\<rparr>" sample_page]
  by (simp add: sample_response_def sample_page_def)

text \<open>
  Claim C7. A click at pixel \<open>pageX\<close> on a canvas whose left edge is at
  \<open>offsetLeft\<close>, during an active game, calls \<open>makeMove\<close> with the column index
  \<open>floor((pageX - offsetLeft) / 60)\<close>, the floor taken of the real quotient; with
  offset 0 and a click at 125 the index is 2.
\<close>

theorem board_click_column:
  assumes "active_game pg"
  shows "board_click event pg =
           makeMove \<lfloor>(real_of_int (pageX event) - real_of_int (offsetLeft event)) / 60\<rfloor> pg
       \<and> board_click \<lparr>pageX = 125, offsetLeft = 0\<rparr> pg = makeMove 2 pg"
proof -
  have "\<lfloor>(real_of_int (pageX event) - real_of_int (offsetLeft event)) / 60\<rfloor> =
        (pageX event - offsetLeft event) div 60"
    using floor_divide_of_int_eq [of "pageX event - offsetLeft event" 60, where ?'a = real]
    by simp
  with assms show ?thesis
    by (simp add: board_click_def slot_pixels_def)
qed

theorem board_click_column_witness:
  "active_game sample_page
   \<and> requests (board_click \<lparr>pageX = 125, offsetLeft = 0\<rparr> sample_page) =
       [''/newgame'', ''/makemove?game_id=42&column_index=2'']
   \<and> requests (board_click \<lparr>pageX = 7, offsetLeft = 8\<rparr> sample_page) =
       [''/newgame'', ''/makemove?game_id=42&column_index=-1'']"
  using board_click_column [of sample_page "\<lparr>pageX = 7, offsetLeft = 8\<rparr>"]
  by (simp add: sample_page_def makeMove_def escape_def escape_char_def
      escape_kept_def number_to_string_def digit_char_def)

text \<open>
  Claim C8. A click on the canvas while \<open>active_game\<close> is false changes nothing: no
  request is sent, and the session variables and the prompt stay as they were.
\<close>

theorem board_click_inactive:
  assumes "\<not> active_game pg"
  shows "board_click event pg = pg"
  using assms by (simp add: board_click_def)

theorem board_click_inactive_witness:
  "\<not> active_game (sample_page\<lparr>active_game := False\<rparr>)
   \<and> board_click \<lparr>pageX = 125, offsetLeft = 0\<rparr> (sample_page\<lparr>active_game := False\<rparr>)
       = sample_page\<lparr>active_game := False\<rparr>"
  using board_click_inactive
    [of "sample_page\<lparr>active_game := False\<rparr>" "\<lparr>pageX = 125, offsetLeft = 0\<rparr>"]
  by simp

text \<open>
  Claim C9. When the \<open>readyState\<close> is not 4 or the status is not 200, the handler
  of a new-game request and the handler of a move request both leave the page,
  and so the session variables, unchanged.
\<close>

theorem failed_response_ignored:
  assumes "\<not> (readyState req = 4 \<and> status req = 200)"
  shows "newGame_onreadystatechange req pg = pg \<and> makeMove_onreadystatechange req pg = pg"
  using assms by (auto simp add: newGame_onreadystatechange_def makeMove_onreadystatechange_def)

theorem failed_response_ignored_witness:
  "newGame_onreadystatechange \<lparr>readyState = 4, status = 500, parsed = sample_response\<rparr> sample_page
     = sample_page
   \<and> makeMove_onreadystatechange \<lparr>readyState = 4, status = 500, parsed = sample_response\<rparr> sample_page
     = sample_page"
  using failed_response_ignored
    [of "\<lparr>readyState = 4, status = 500, parsed = sample_response\<rparr>" sample_page]
  by simp

text \<open>
  Claim C10. When the board array of the response has fewer than
  \<open>num_rows * num_columns\<close> elements, \<open>renderBoard\<close> still paints all
  \<open>num_rows * num_columns\<close> circles; reading the array at an index past its end
  yields \<open>undefined\<close>, and the circle at such a position is grey.
\<close>

theorem renderBoard_short_board:
  assumes "0 \<le> num_rows pg" and "0 \<le> num_columns pg"
    and "int (length (Board resp)) < num_rows pg * num_columns pg"
  shows "length (canvas_fills (renderBoard resp pg)) = nat (num_rows pg * num_columns pg)
       \<and> (\<forall>k. length (Board resp) \<le> k \<and> k < nat (num_rows pg * num_columns pg) \<longrightarrow>
            js_index (Board resp) (int k) = JUndefined
            \<and> fillStyle (canvas_fills (renderBoard resp pg) ! k) = ''#DCDCDC'')"
proof (intro conjI allI impI)
  show "length (canvas_fills (renderBoard resp pg)) = nat (num_rows pg * num_columns pg)"
    using assms(1,2) by (rule renderBoard_length)
next
  fix k
  assume past: "length (Board resp) \<le> k \<and> k < nat (num_rows pg * num_columns pg)"
  then show undef: "js_index (Board resp) (int k) = JUndefined"
    by (simp add: js_index_def)
  from past assms(1,2) have "canvas_fills (renderBoard resp pg) ! k =
      marker_at resp (num_columns pg) (int k div num_columns pg) (int k mod num_columns pg)"
    by (simp add: renderBoard_nth)
  with undef show "fillStyle (canvas_fills (renderBoard resp pg) ! k) = ''#DCDCDC''"
    by (simp add: marker_at_def fill_color_def)
qed

theorem renderBoard_short_board_witness:
  "int (length (Board sample_response)) < num_rows sample_page * num_columns sample_page
   \<and> length (canvas_fills (renderBoard sample_response sample_page)) = 6
   \<and> js_index (Board sample_response) 5 = JUndefined
   \<and> fillStyle (canvas_fills (renderBoard sample_response sample_page) ! 5) = ''#DCDCDC''"
proof -
  have dims: "0 \<le> num_rows sample_page" "0 \<le> num_columns sample_page"
    and short: "int (length (Board sample_response)) < num_rows sample_page * num_columns sample_page"
    by (simp_all add: sample_page_def sample_response_def)
  note main = renderBoard_short_board [OF dims short]
  from main [THEN conjunct1]
  have "length (canvas_fills (renderBoard sample_response sample_page)) = 6"
    by (simp add: sample_page_def)
  moreover from main [THEN conjunct2, rule_format, of 5]
  have "js_index (Board sample_response) 5 = JUndefined
      \<and> fillStyle (canvas_fills (renderBoard sample_response sample_page) ! 5) = ''#DCDCDC''"
    by (simp add: sample_page_def sample_response_def)
  ultimately show ?thesis
    using short by simp
qed

end
